theory Spec2Isabelle
  imports Complex_Main "HOL-Library.Sublist" "HOL-Library.Log_Nat"
begin

section \<open>Air monitor: sensor readings, rolling history and HTTP handlers\<close>

text \<open>
  Shallow embedding of \<^verbatim>\<open>Air_monitor.py\<close> (and of \<^verbatim>\<open>air_monitor.py\<close>, whose
  functions modelled here are the same text). A Python float is the real number it holds;
  infinities and NaN are left out. The arithmetic of \<^verbatim>\<open>read_sensors_once\<close> and its
  \<^verbatim>\<open>round\<close> calls round their results to binary64, as the interpreter does; the
  timestamps and the PM2.5 breakpoints are compared as real numbers. The module-level
  globals \<^verbatim>\<open>history\<close> and \<^verbatim>\<open>last_row\<close> are fields of an explicit state; everything
  the environment decides (what a sensor returns or raises, the clock, whether the CSV
  file can be written) is an input.
\<close>

subsection \<open>Configuration\<close>

definition READ_INTERVAL_SEC :: real where
  "READ_INTERVAL_SEC = 5"

definition HISTORY_SECONDS :: real where
  "HISTORY_SECONDS = 15 * 60"

subsection \<open>Readings\<close>

text \<open>The dict returned by \<^verbatim>\<open>read_sensors_once\<close>, always with the same eight keys.\<close>

record reading =
  ts :: real
  temp_c :: real
  temp_f :: real
  humidity :: real
  pm1 :: "real option"
  pm25 :: "real option"
  pm10 :: "real option"
  aqi_category :: string

text \<open>\<^verbatim>\<open>aqi_category_from_pm25\<close>: \<^verbatim>\<open>None\<close> first, then the chain of \<^verbatim>\<open><=\<close> tests.\<close>

fun aqi_category_from_pm25 :: "real option \<Rightarrow> string" where
  "aqi_category_from_pm25 None = ''Unknown''"
| "aqi_category_from_pm25 (Some v) =
     (if v \<le> 12.0 then ''Good''
      else if v \<le> 35.4 then ''Moderate''
      else if v \<le> 55.4 then ''Unhealthy for Sensitive Groups''
      else if v \<le> 150.4 then ''Unhealthy''
      else if v \<le> 250.4 then ''Very Unhealthy''
      else ''Hazardous'')"

subsection \<open>Binary64 arithmetic\<close>

text \<open>
  Rounding a real number to the nearest integer, a tie going to the even one.
\<close>

definition round_half_even :: "real \<Rightarrow> int" where
  "round_half_even y =
     (let n = \<lfloor>y\<rfloor>;
          d = y - of_int n
      in if d < 1 / 2 then n
         else if 1 / 2 < d then n + 1
         else if even n then n else n + 1)"

text \<open>
  The binary exponent of a non-zero real: the \<open>e\<close> with \<open>2 ^ e \<le> \<bar>x\<bar> < 2 ^ (e + 1)\<close>,
  computed from the bit length of the integer part of \<open>\<bar>x\<bar>\<close>, or of \<open>1 / \<bar>x\<bar>\<close> below one.
\<close>

definition binary_exponent :: "real \<Rightarrow> int" where
  "binary_exponent x =
     (if 1 \<le> \<bar>x\<bar> then bitlen \<lfloor>\<bar>x\<bar>\<rfloor> - 1 else - bitlen (\<lceil>1 / \<bar>x\<bar>\<rceil> - 1))"

text \<open>
  The binary64 value nearest to a real, ties to even: 53 significant bits, the exponent
  not below -1022 (subnormal numbers share the spacing \<open>2 ^ (- 1074)\<close>). A result of
  magnitude \<open>2 ^ 1024\<close> or more would be an infinity in the interpreter; such values are
  outside this model. Each float operation of the source is the exact operation followed
  by this rounding.
\<close>

definition binary64 :: "real \<Rightarrow> real" where
  "binary64 x =
     (let e = max (- 1022) (binary_exponent x);
          u = 2 powi (e - 52)
      in of_int (round_half_even (x / u)) * u)"

text \<open>
  Python's \<^verbatim>\<open>round(x, ndigits)\<close> on a float, for \<open>ndigits \<ge> 0\<close>: the exact value of
  \<open>x\<close> is rounded to \<open>ndigits\<close> decimals, a tie going to the even last digit, and the
  result is the float nearest to that decimal number.
\<close>

definition round_py :: "real \<Rightarrow> nat \<Rightarrow> real" where
  "round_py x ndigits =
     binary64 (of_int (round_half_even (x * 10 ^ ndigits)) / 10 ^ ndigits)"

subsection \<open>The sensor reader\<close>

text \<open>
  An exception raised by a sensor driver, with its message. The two drivers are read
  through \<^verbatim>\<open>aht.temperature\<close>, \<^verbatim>\<open>aht.relative_humidity\<close> and
  \<^verbatim>\<open>pm25.read()\<close>; each either returns a value or raises.
\<close>

datatype error = Sensor_error string

record sensors =
  temperature :: "error + real"
  relative_humidity :: "error + real"
  pm25_read :: "error + (string \<rightharpoonup> real)"

text \<open>
  \<^verbatim>\<open>read_sensors_once\<close>, in the order of the source: temperature, Fahrenheit
  (\<^verbatim>\<open>temp_c * 9.0 / 5.0 + 32.0\<close>, three float operations from left to right),
  humidity, the particulate read, the three \<^verbatim>\<open>aqdata.get\<close> lookups, the clock
  (\<open>now\<close> is what \<^verbatim>\<open>time.time()\<close> returns), the category. The first driver that
  raises ends the call with its error. The values the drivers return are floats.
\<close>

definition read_sensors_once :: "sensors \<Rightarrow> real \<Rightarrow> error + reading" where
  "read_sensors_once hw now =
     (case temperature hw of
        Inl e \<Rightarrow> Inl e
      | Inr c \<Rightarrow>
          (let f = binary64 (binary64 (binary64 (c * 9.0) / 5.0) + 32.0) in
           case relative_humidity hw of
             Inl e \<Rightarrow> Inl e
           | Inr h \<Rightarrow>
               (case pm25_read hw of
                  Inl e \<Rightarrow> Inl e
                | Inr aqdata \<Rightarrow>
                    (let p1 = aqdata ''pm10 standard'';
                         pm25_std = aqdata ''pm25 standard'';
                         p10 = aqdata ''pm100 standard'';
                         aqi_cat = aqi_category_from_pm25 pm25_std
                     in Inr \<lparr>ts = now,
                             temp_c = round_py c 1,
                             temp_f = round_py f 1,
                             humidity = round_py h 1,
                             pm1 = p1,
                             pm25 = pm25_std,
                             pm10 = p10,
                             aqi_category = aqi_cat\<rparr>))))"

subsection \<open>State of the process\<close>

text \<open>
  One line of the session CSV: the header, or the row of a reading (the \<^verbatim>\<open>time_iso\<close>
  column is the rendering of the reading's \<open>ts\<close>). What the process prints is kept as a
  list of lines.
\<close>

datatype csv_line = Header | Row reading

datatype printed = Logged reading | Csv_write_error string | Sensor_read_error error

record monitor =
  history :: "reading list"
  last_row :: "reading option"
  csv_file :: "csv_line list option"
  printed_lines :: "printed list"
  slept :: real

definition initial_monitor :: monitor where
  "initial_monitor =
     \<lparr>history = [], last_row = None, csv_file = None, printed_lines = [], slept = 0\<rparr>"

text \<open>
  The block of \<^verbatim>\<open>sensor_loop\<close> under \<^verbatim>\<open>history_lock\<close> (the History Store's
  \<^verbatim>\<open>record\<close>): append, set \<^verbatim>\<open>last_row\<close>, then keep the rows at or after the cutoff.
\<close>

definition history_store_record :: "reading \<Rightarrow> monitor \<Rightarrow> monitor" where
  "history_store_record row s =
     (let h = history s @ [row];
          cutoff = ts row - HISTORY_SECONDS
      in s\<lparr>history := filter (\<lambda>r. ts r \<ge> cutoff) h, last_row := Some row\<rparr>)"

text \<open>The two locked reads of the handlers.\<close>

definition snapshot_latest :: "monitor \<Rightarrow> reading option" where
  "snapshot_latest s = last_row s"

definition snapshot_history :: "monitor \<Rightarrow> reading list" where
  "snapshot_history s = history s"

text \<open>
  \<^verbatim>\<open>append_to_csv\<close>. Whatever is raised inside its \<^verbatim>\<open>try\<close> is caught there and
  printed, so the call itself never raises. What happens inside is decided by the
  environment:
  \<^item> \<open>Io_ok\<close>: the header, when the file did not exist before the call, and the row
    reach the file;
  \<^item> \<open>Open_raises\<close>: \<^verbatim>\<open>open\<close> raises and the file is left as it was;
  \<^item> \<open>Row_raises\<close>: building or writing the row raises
    (\<^verbatim>\<open>datetime.fromtimestamp\<close>, \<^verbatim>\<open>writerow\<close>); leaving the \<^verbatim>\<open>with\<close> block
    closes the file, which writes out the header of a new file;
  \<^item> \<open>Write_raises\<close>: the operating system refuses the write when the buffer is
    flushed; \<^verbatim>\<open>open\<close> has created the file, and nothing is added to it.
\<close>

datatype io_outcome = Io_ok | Open_raises string | Row_raises string | Write_raises string

definition print_line :: "printed \<Rightarrow> monitor \<Rightarrow> monitor" where
  "print_line l s = s\<lparr>printed_lines := printed_lines s @ [l]\<rparr>"

fun append_to_csv :: "io_outcome \<Rightarrow> reading \<Rightarrow> monitor \<Rightarrow> monitor" where
  "append_to_csv (Open_raises e) row s = print_line (Csv_write_error e) s"
| "append_to_csv (Row_raises e) row s =
     print_line (Csv_write_error e)
       (s\<lparr>csv_file := Some (case csv_file s of None \<Rightarrow> [Header] | Some ls \<Rightarrow> ls)\<rparr>)"
| "append_to_csv (Write_raises e) row s =
     print_line (Csv_write_error e)
       (s\<lparr>csv_file := Some (case csv_file s of None \<Rightarrow> [] | Some ls \<Rightarrow> ls)\<rparr>)"
| "append_to_csv Io_ok row s =
     s\<lparr>csv_file := Some ((case csv_file s of None \<Rightarrow> [Header] | Some ls \<Rightarrow> ls) @ [Row row])\<rparr>"

subsection \<open>The poll loop\<close>

text \<open>
  What the environment supplies to one iteration: the sensors, the clock and the file
  system.
\<close>

record tick =
  hw :: sensors
  clock :: real
  csv_io :: io_outcome

text \<open>
  The \<^verbatim>\<open>try\<close> block of \<^verbatim>\<open>sensor_loop\<close>. It raises when the sensor read raises
  and nothing has been done then. Otherwise its statements run one after the other, and
  the result lists the state the process is in after each of them: after the block under
  \<^verbatim>\<open>history_lock\<close>, after \<^verbatim>\<open>append_to_csv\<close>, after \<^verbatim>\<open>print\<close>.
\<close>

definition sensor_loop_try :: "tick \<Rightarrow> monitor \<Rightarrow> error + monitor list" where
  "sensor_loop_try t s =
     (case read_sensors_once (hw t) (clock t) of
        Inl e \<Rightarrow> Inl e
      | Inr row \<Rightarrow>
          (let s1 = history_store_record row s;
               s2 = append_to_csv (csv_io t) row s1;
               s3 = print_line (Logged row) s2
           in Inr [s1, s2, s3]))"

text \<open>
  One iteration, the body of \<^verbatim>\<open>while True\<close>: the \<^verbatim>\<open>try\<close> block, the handler
  of \<^verbatim>\<open>except Exception\<close>, which prints the error, then
  \<^verbatim>\<open>time.sleep(READ_INTERVAL_SEC)\<close>, whose seconds are added up in \<open>slept\<close>. The loop
  never returns; \<open>sensor_loop\<close> runs it over the iterations of a finite prefix of its
  run.
\<close>

definition sensor_loop_iteration :: "tick \<Rightarrow> monitor \<Rightarrow> monitor" where
  "sensor_loop_iteration t s =
     (let s' = (case sensor_loop_try t s of
                  Inr states \<Rightarrow> last states
                | Inl e \<Rightarrow> print_line (Sensor_read_error e) s)
      in s'\<lparr>slept := slept s' + READ_INTERVAL_SEC\<rparr>)"

fun sensor_loop :: "tick list \<Rightarrow> monitor \<Rightarrow> monitor" where
  "sensor_loop [] s = s"
| "sensor_loop (t # rest) s = sensor_loop rest (sensor_loop_iteration t s)"

subsection \<open>HTTP handlers\<close>

text \<open>
  \<^verbatim>\<open>get_system_info\<close> reads the host; its result is an input of \<^verbatim>\<open>api_data\<close>.
  A handler returns the JSON body with the HTTP status (200 when the source gives none).
\<close>

record system_info =
  cpu_temp_f :: "real option"
  uptime :: string
  ip :: string
  wifi_rssi :: "int option"

datatype json_body =
    Error_body bool string
  | Data_body bool reading system_info
  | Points_body bool "reading list"

definition api_data :: "system_info \<Rightarrow> monitor \<Rightarrow> json_body \<times> nat" where
  "api_data sysinfo s =
     (let row = snapshot_latest s in
      case row of
        None \<Rightarrow> (Error_body False ''No data yet'', 503)
      | Some r \<Rightarrow> (let out = r\<lparr>ts := ts r\<rparr> in (Data_body True out sysinfo, 200)))"

definition api_history :: "monitor \<Rightarrow> json_body \<times> nat" where
  "api_history s = (let pts = snapshot_history s in (Points_body True pts, 200))"

subsection \<open>Sample data\<close>

text \<open>
  A reading taken at time \<open>t\<close>, the sensors that produce it, sensors whose particulate
  read raises, and iterations built from them, for the concrete runs below.
\<close>

definition sample_reading :: "real \<Rightarrow> reading" where
  "sample_reading t =
     \<lparr>ts = t, temp_c = 22.0, temp_f = binary64 71.6, humidity = 45.0,
      pm1 = Some 6, pm25 = Some 10, pm10 = Some 12, aqi_category = ''Good''\<rparr>"

definition sample_sensors :: sensors where
  "sample_sensors =
     \<lparr>temperature = Inr 22.0, relative_humidity = Inr 45.0,
      pm25_read = Inr [''pm10 standard'' \<mapsto> 6, ''pm25 standard'' \<mapsto> 10, ''pm100 standard'' \<mapsto> 12]\<rparr>"

definition failing_sensors :: sensors where
  "failing_sensors =
     \<lparr>temperature = Inr 22.0, relative_humidity = Inr 45.0,
      pm25_read = Inl (Sensor_error ''Unable to read from PM2.5 sensor'')\<rparr>"

definition ok_tick :: "real \<Rightarrow> io_outcome \<Rightarrow> tick" where
  "ok_tick t io = \<lparr>hw = sample_sensors, clock = t, csv_io = io\<rparr>"

definition failed_tick :: "real \<Rightarrow> tick" where
  "failed_tick t = \<lparr>hw = failing_sensors, clock = t, csv_io = Io_ok\<rparr>"

definition sample_system_info :: system_info where
  "sample_system_info = \<lparr>cpu_temp_f = Some 118.4, uptime = ''01:02:03'', ip = ''192.168.1.20'', wifi_rssi = Some (- 62)\<rparr>"

section \<open>Air-quality category\<close>

text \<open>
  C4. The category is a function of the PM2.5 value alone and follows the breakpoint
  table, every upper bound inclusive: Good up to 12.0, Moderate up to 35.4, Unhealthy for
  Sensitive Groups up to 55.4, Unhealthy up to 150.4, Very Unhealthy up to 250.4,
  Hazardous above; Unknown exactly when the value is absent. The boundary values of the
  table fall where the spec puts them.
\<close>

theorem aqi_category_table:
  "aqi_category_from_pm25 (Some v) =
     (if v \<le> 12.0 then ''Good''
      else if 12.0 < v \<and> v \<le> 35.4 then ''Moderate''
      else if 35.4 < v \<and> v \<le> 55.4 then ''Unhealthy for Sensitive Groups''
      else if 55.4 < v \<and> v \<le> 150.4 then ''Unhealthy''
      else if 150.4 < v \<and> v \<le> 250.4 then ''Very Unhealthy''
      else ''Hazardous'')
   \<and> (aqi_category_from_pm25 (Some v) = ''Hazardous'' \<longleftrightarrow> 250.4 < v)
   \<and> (aqi_category_from_pm25 p = ''Unknown'' \<longleftrightarrow> p = None)
   \<and> aqi_category_from_pm25 (Some 12.0) = ''Good''
   \<and> aqi_category_from_pm25 (Some 12.1) = ''Moderate''
   \<and> aqi_category_from_pm25 (Some 35.4) = ''Moderate''
   \<and> aqi_category_from_pm25 (Some 35.5) = ''Unhealthy for Sensitive Groups''
   \<and> aqi_category_from_pm25 (Some 55.4) = ''Unhealthy for Sensitive Groups''
   \<and> aqi_category_from_pm25 (Some 55.5) = ''Unhealthy''
   \<and> aqi_category_from_pm25 (Some 150.4) = ''Unhealthy''
   \<and> aqi_category_from_pm25 (Some 150.5) = ''Very Unhealthy''
   \<and> aqi_category_from_pm25 (Some 250.4) = ''Very Unhealthy''
   \<and> aqi_category_from_pm25 (Some 250.5) = ''Hazardous''"
proof -
  have unknown: "aqi_category_from_pm25 p = ''Unknown'' \<longleftrightarrow> p = None"
    by (cases p) simp_all
  show ?thesis
    unfolding unknown by simp
qed

theorem aqi_category_table_witness:
  "aqi_category_from_pm25 (Some 10.0) = ''Good''
   \<and> aqi_category_from_pm25 (Some 300) = ''Hazardous''
   \<and> aqi_category_from_pm25 None = ''Unknown''"
  using aqi_category_table [of "10.0" None] aqi_category_table [of 300 None]
  by simp

section \<open>The history window\<close>

subsection \<open>One call of record\<close>

lemma history_record:
  "history (history_store_record row s) =
     filter (\<lambda>r. ts r \<ge> ts row - HISTORY_SECONDS) (history s) @ [row]"
  by (simp add: history_store_record_def HISTORY_SECONDS_def)

lemma last_row_record: "last_row (history_store_record row s) = Some row"
  by (simp add: history_store_record_def)

lemma filter_cutoff_twice:
  fixes c d :: real
  assumes "c \<le> d"
  shows "filter (\<lambda>r. ts r \<ge> d) (filter (\<lambda>r. ts r \<ge> c) xs) = filter (\<lambda>r. ts r \<ge> d) xs"
  using assms by (induction xs) auto

lemma history_fold_record_sorted:
  "sorted_wrt (\<lambda>a b. ts a \<le> ts b) (rs @ [r]) \<Longrightarrow> history s = [] \<Longrightarrow>
   history (fold history_store_record (rs @ [r]) s) =
     filter (\<lambda>x. ts x \<ge> ts r - HISTORY_SECONDS) (rs @ [r])"
proof (induction rs arbitrary: r rule: rev_induct)
  case Nil
  then show ?case by (simp add: history_record HISTORY_SECONDS_def)
next
  case (snoc q qs)
  from snoc.prems(1) have sq: "sorted_wrt (\<lambda>a b. ts a \<le> ts b) (qs @ [q])" and le: "ts q \<le> ts r"
    by (simp_all add: sorted_wrt_append)
  define s' where "s' = fold history_store_record (qs @ [q]) s"
  have ih: "history s' = filter (\<lambda>x. ts x \<ge> ts q - HISTORY_SECONDS) (qs @ [q])"
    unfolding s'_def using snoc.IH [OF sq snoc.prems(2)] .
  have "fold history_store_record ((qs @ [q]) @ [r]) s = history_store_record r s'"
    by (simp add: s'_def)
  then have "history (fold history_store_record ((qs @ [q]) @ [r]) s) =
      filter (\<lambda>x. ts x \<ge> ts r - HISTORY_SECONDS)
        (filter (\<lambda>x. ts x \<ge> ts q - HISTORY_SECONDS) (qs @ [q])) @ [r]"
    by (simp only: history_record ih)
  also have "\<dots> = filter (\<lambda>x. ts x \<ge> ts r - HISTORY_SECONDS) (qs @ [q]) @ [r]"
    using le by (subst filter_cutoff_twice) simp_all
  also have "\<dots> = filter (\<lambda>x. ts x \<ge> ts r - HISTORY_SECONDS) ((qs @ [q]) @ [r])"
    by (simp add: HISTORY_SECONDS_def)
  finally show ?case .
qed

lemma record_keeps_row:
  "history (history_store_record row s) \<noteq> [] \<and> last (history (history_store_record row s)) = row"
  by (simp add: history_record)


subsection \<open>Records with increasing timestamps\<close>

text \<open>
  C1. Starting from the empty history, after a sequence of record calls whose timestamps
  strictly increase, the history snapshot is exactly the recorded readings whose timestamp
  is at least the last timestamp minus \<open>HISTORY_SECONDS\<close> (a reading exactly at that
  cutoff is kept), in the order they were recorded. With readings at 0, 300, 600, 900 and
  1200 the window after the last insert holds those at 300, 600, 900 and 1200.
\<close>

theorem window_after_increasing_records:
  assumes "sorted_wrt (\<lambda>a b. ts a < ts b) (rs @ [r])"
  shows "snapshot_history (fold history_store_record (rs @ [r]) initial_monitor) =
           filter (\<lambda>x. ts x \<ge> ts r - HISTORY_SECONDS) (rs @ [r])"
proof -
  have "sorted_wrt (\<lambda>a b. ts a \<le> ts b) (rs @ [r])"
    using assms by (rule sorted_wrt_mono_rel [rotated]) simp
  then show ?thesis
    unfolding snapshot_history_def
    by (rule history_fold_record_sorted) (simp add: initial_monitor_def)
qed

theorem window_after_increasing_records_witness:
  "sorted_wrt (\<lambda>a b. ts a < ts b)
     ([sample_reading 0, sample_reading 300, sample_reading 600, sample_reading 900] @ [sample_reading 1200])
   \<and> snapshot_history
       (fold history_store_record
          ([sample_reading 0, sample_reading 300, sample_reading 600, sample_reading 900] @ [sample_reading 1200])
          initial_monitor) =
     [sample_reading 300, sample_reading 600, sample_reading 900, sample_reading 1200]"
proof -
  have h: "sorted_wrt (\<lambda>a b. ts a < ts b)
     ([sample_reading 0, sample_reading 300, sample_reading 600, sample_reading 900] @ [sample_reading 1200])"
    by (simp add: sample_reading_def)
  show ?thesis
    using h window_after_increasing_records [OF h]
    by (simp add: sample_reading_def HISTORY_SECONDS_def)
qed


subsection \<open>The window invariant\<close>

text \<open>
  C2. After every record call, whatever the timestamps were: the window is the previous
  window with the new reading appended, restricted to the entries whose timestamp is at
  least the cutoff (the new reading's timestamp minus \<open>HISTORY_SECONDS\<close>); so every
  element's timestamp is at least the timestamp of the last element minus the window
  length, and an entry is kept exactly when it is at or after the cutoff.
\<close>

theorem record_window_invariant:
  "history (history_store_record row s) =
     filter (\<lambda>r. ts r \<ge> ts row - HISTORY_SECONDS) (history s @ [row])
   \<and> (\<forall>r \<in> set (history (history_store_record row s)).
         ts r \<ge> ts (last (history (history_store_record row s))) - HISTORY_SECONDS)
   \<and> (\<forall>r \<in> set (history s @ [row]).
         r \<in> set (history (history_store_record row s)) \<longleftrightarrow> ts r \<ge> ts row - HISTORY_SECONDS)"
proof -
  have eq: "history (history_store_record row s) =
     filter (\<lambda>r. ts r \<ge> ts row - HISTORY_SECONDS) (history s @ [row])"
    by (simp add: history_store_record_def)
  have l: "last (history (history_store_record row s)) = row"
    by (simp add: history_record)
  show ?thesis
    unfolding l unfolding eq by auto
qed

theorem record_window_invariant_witness:
  "history (history_store_record (sample_reading 1450)
      (fold history_store_record [sample_reading 1000, sample_reading 500] initial_monitor)) =
     [sample_reading 1000, sample_reading 1450]
   \<and> ts (sample_reading 1000) \<ge> ts (sample_reading 1450) - HISTORY_SECONDS
   \<and> ts (sample_reading 500) < ts (sample_reading 1450) - HISTORY_SECONDS"
  using record_window_invariant [of "sample_reading 1450"
      "fold history_store_record [sample_reading 1000, sample_reading 500] initial_monitor"]
  by (simp add: history_store_record_def initial_monitor_def sample_reading_def HISTORY_SECONDS_def)


section \<open>Binary64 rounding\<close>

text \<open>
  The exponent function finds the binade of its argument, and rounding moves a value by
  at most half a unit in the last place.
\<close>

lemma round_half_even_close: "\<bar>real_of_int (round_half_even y) - y\<bar> \<le> 1 / 2"
  unfolding round_half_even_def Let_def by (auto simp: abs_le_iff)

lemma round_half_even_of_int: "round_half_even (of_int k) = k"
  by (simp add: round_half_even_def)

lemma powi_neg: "0 \<le> n \<Longrightarrow> (2::real) powi (- n) = 1 / 2 ^ nat n"
  by (cases "n = 0") (simp_all add: power_int_def inverse_eq_divide power_one_over)

lemma binary_exponent_lower:
  assumes "x \<noteq> 0"
  shows "2 powi (binary_exponent x) \<le> \<bar>x\<bar>"
proof (cases "1 \<le> \<bar>x\<bar>")
  case True
  define m where "m = \<lfloor>\<bar>x\<bar>\<rfloor>"
  have m: "0 < m" using True by (simp add: m_def)
  have b: "1 \<le> bitlen m" using m bitlen_eq_zero_iff [of m] bitlen_nonneg [of m] by linarith
  have "(2::int) ^ nat (bitlen m - 1) \<le> m"
    using bitlen_bounds [OF m] by simp
  then have "real_of_int (2 ^ nat (bitlen m - 1)) \<le> real_of_int m"
    by (simp only: of_int_le_iff)
  also have "\<dots> \<le> \<bar>x\<bar>" by (simp add: m_def)
  finally have "(2::real) ^ nat (bitlen m - 1) \<le> \<bar>x\<bar>" by simp
  moreover have "binary_exponent x = bitlen m - 1"
    using True by (simp add: binary_exponent_def m_def)
  ultimately show ?thesis
    using b by (simp add: power_int_def)
next
  case False
  define m where "m = \<lceil>1 / \<bar>x\<bar>\<rceil>"
  define B where "B = bitlen (m - 1)"
  from False assms have x: "0 < \<bar>x\<bar>" "\<bar>x\<bar> < 1" by simp_all
  then have "1 < 1 / \<bar>x\<bar>" by simp
  then have m: "0 < m - 1" unfolding m_def by linarith
  have B0: "0 \<le> B" by (simp add: B_def bitlen_nonneg)
  have "m - 1 < 2 ^ nat B"
    using bitlen_bounds [OF m] by (simp add: B_def)
  then have "m \<le> 2 ^ nat B" by simp
  then have "real_of_int m \<le> real_of_int (2 ^ nat B)"
    by (simp only: of_int_le_iff)
  then have "real_of_int m \<le> 2 ^ nat B" by simp
  moreover have "1 / \<bar>x\<bar> \<le> real_of_int m" by (simp add: m_def)
  ultimately have "1 / \<bar>x\<bar> \<le> 2 ^ nat B" by linarith
  then have "1 \<le> 2 ^ nat B * \<bar>x\<bar>"
    using x by (simp add: field_simps)
  then have "1 / 2 ^ nat B \<le> \<bar>x\<bar>"
    by (simp add: field_simps)
  moreover have "binary_exponent x = - B"
    using False by (simp add: binary_exponent_def m_def B_def)
  ultimately show ?thesis
    by (simp only: powi_neg [OF B0])
qed

lemma binary_exponent_upper:
  assumes "x \<noteq> 0"
  shows "\<bar>x\<bar> < 2 powi (binary_exponent x + 1)"
proof (cases "1 \<le> \<bar>x\<bar>")
  case True
  define m where "m = \<lfloor>\<bar>x\<bar>\<rfloor>"
  have m: "0 < m" using True by (simp add: m_def)
  have b: "0 \<le> bitlen m" by (rule bitlen_nonneg)
  have "m < 2 ^ nat (bitlen m)"
    using bitlen_bounds [OF m] by simp
  then have "m + 1 \<le> 2 ^ nat (bitlen m)" by simp
  then have "real_of_int (m + 1) \<le> real_of_int (2 ^ nat (bitlen m))"
    by (simp only: of_int_le_iff)
  then have "real_of_int m + 1 \<le> 2 ^ nat (bitlen m)" by simp
  moreover have "\<bar>x\<bar> < real_of_int m + 1" unfolding m_def by linarith
  ultimately have "\<bar>x\<bar> < 2 ^ nat (bitlen m)" by linarith
  moreover have "binary_exponent x + 1 = bitlen m"
    using True by (simp add: binary_exponent_def m_def)
  ultimately show ?thesis
    using b by (simp add: power_int_def)
next
  case False
  define m where "m = \<lceil>1 / \<bar>x\<bar>\<rceil>"
  define B where "B = bitlen (m - 1)"
  from False assms have x: "0 < \<bar>x\<bar>" "\<bar>x\<bar> < 1" by simp_all
  then have "1 < 1 / \<bar>x\<bar>" by simp
  then have m: "0 < m - 1" unfolding m_def by linarith
  have B1: "1 \<le> B"
    using m bitlen_eq_zero_iff [of "m - 1"] bitlen_nonneg [of "m - 1"] unfolding B_def by linarith
  have "2 ^ nat (B - 1) \<le> m - 1"
    using bitlen_bounds [OF m] by (simp add: B_def)
  then have "real_of_int (2 ^ nat (B - 1)) \<le> real_of_int (m - 1)"
    by (simp only: of_int_le_iff)
  then have "2 ^ nat (B - 1) \<le> real_of_int m - 1" by simp
  moreover have "real_of_int m - 1 < 1 / \<bar>x\<bar>" unfolding m_def by linarith
  ultimately have "2 ^ nat (B - 1) < 1 / \<bar>x\<bar>" by linarith
  then have "2 ^ nat (B - 1) * \<bar>x\<bar> < 1"
    using x by (simp add: field_simps)
  then have "\<bar>x\<bar> < 1 / 2 ^ nat (B - 1)"
    by (simp add: field_simps)
  moreover have "binary_exponent x + 1 = - (B - 1)"
    using False by (simp add: binary_exponent_def m_def B_def)
  moreover have "0 \<le> B - 1" using B1 by simp
  ultimately show ?thesis
    by (simp only: powi_neg)
qed

lemma binary64_zero: "binary64 0 = 0"
  by (simp add: binary64_def round_half_even_def)

lemma binary64_error:
  "\<bar>binary64 x - x\<bar> \<le> 2 powi (max (- 1022) (binary_exponent x) - 53)"
proof -
  define e where "e = max (- 1022) (binary_exponent x)"
  define u :: real where "u = 2 powi (e - 52)"
  have u: "0 < u" by (simp add: u_def zero_less_power_int)
  have "binary64 x - x = (real_of_int (round_half_even (x / u)) - x / u) * u"
    using u by (simp add: binary64_def Let_def e_def u_def algebra_simps)
  then have "\<bar>binary64 x - x\<bar> = \<bar>real_of_int (round_half_even (x / u)) - x / u\<bar> * u"
    using u by (simp add: abs_mult)
  also have "\<dots> \<le> 1 / 2 * u"
    using u round_half_even_close [of "x / u"] by (intro mult_right_mono) simp_all
  also have "\<dots> = 2 powi (e - 53)"
    by (simp add: u_def power_int_diff)
  finally show ?thesis by (simp only: e_def)
qed

lemma binary64_error_bound:
  assumes "\<bar>x\<bar> \<le> 2 powi k" and "- 1022 \<le> k"
  shows "\<bar>binary64 x - x\<bar> \<le> 2 powi (k - 53)"
proof (cases "x = 0")
  case True
  then show ?thesis by (simp add: binary64_zero zero_le_power_int)
next
  case False
  have "binary_exponent x \<le> k"
  proof (rule ccontr)
    assume "\<not> binary_exponent x \<le> k"
    then have "(2::real) powi k < 2 powi (binary_exponent x)"
      by (intro power_int_strict_increasing) simp_all
    with binary_exponent_lower [OF False] assms(1) show False by linarith
  qed
  with assms(2) have "max (- 1022) (binary_exponent x) - 53 \<le> k - 53" by simp
  then have "(2::real) powi (max (- 1022) (binary_exponent x) - 53) \<le> 2 powi (k - 53)"
    by (intro power_int_increasing) simp_all
  with binary64_error [of x] show ?thesis by linarith
qed


lemma binary_exponent_unique:
  assumes "2 powi e \<le> \<bar>x\<bar>" and "\<bar>x\<bar> < 2 powi (e + 1)"
  shows "binary_exponent x = e"
proof -
  have pos: "(0::real) < 2 powi e" by (simp add: zero_less_power_int)
  have x: "x \<noteq> 0"
  proof
    assume "x = 0"
    with assms(1) pos show False by simp
  qed
  have "binary_exponent x < e + 1"
  proof (rule ccontr)
    assume "\<not> binary_exponent x < e + 1"
    then have "(2::real) powi (e + 1) \<le> 2 powi (binary_exponent x)"
      by (intro power_int_increasing) simp_all
    with binary_exponent_lower [OF x] assms(2) show False by linarith
  qed
  moreover have "e < binary_exponent x + 1"
  proof (rule ccontr)
    assume "\<not> e < binary_exponent x + 1"
    then have "(2::real) powi (binary_exponent x + 1) \<le> 2 powi e"
      by (intro power_int_increasing) simp_all
    with binary_exponent_upper [OF x] assms(1) show False by linarith
  qed
  ultimately show ?thesis by simp
qed

lemma binary64_eval:
  assumes "2 powi e \<le> \<bar>x\<bar>" and "\<bar>x\<bar> < 2 powi (e + 1)" and "- 1022 \<le> e" and "e \<le> 52"
  shows "binary64 x = of_int (round_half_even (x * 2 ^ nat (52 - e))) / 2 ^ nat (52 - e)"
proof -
  have "(2::real) powi (e - 52) = 1 / 2 ^ nat (52 - e)"
    using powi_neg [of "52 - e"] assms(4) by simp
  with assms(3) show ?thesis
    by (simp add: binary64_def Let_def binary_exponent_unique [OF assms(1,2)] max_def)
qed

lemma binary64_small_error:
  assumes "\<bar>x\<bar> \<le> 16384"
  shows "\<bar>binary64 x - x\<bar> \<le> 1 / 10 ^ 11"
proof -
  have "\<bar>x\<bar> \<le> 2 powi 14" using assms by simp
  then have "\<bar>binary64 x - x\<bar> \<le> 2 powi (14 - 53)"
    by (rule binary64_error_bound) simp
  also have "(2::real) powi (14 - 53) = 1 / 2 ^ 39"
    using powi_neg [of 39] by simp
  also have "\<dots> \<le> 1 / 10 ^ 11" by simp
  finally show ?thesis .
qed

lemma round_py_1_close:
  assumes "\<bar>x\<bar> \<le> 16000"
  shows "\<bar>round_py x 1 - x\<bar> \<le> 1 / 20 + 1 / 10 ^ 11"
proof -
  define k where "k = round_half_even (x * 10)"
  have k: "\<bar>real_of_int k - x * 10\<bar> \<le> 1 / 2"
    unfolding k_def by (rule round_half_even_close)
  then have k10: "\<bar>real_of_int k / 10 - x\<bar> \<le> 1 / 20" by linarith
  with assms have "\<bar>real_of_int k / 10\<bar> \<le> 16384" by linarith
  then have "\<bar>binary64 (real_of_int k / 10) - real_of_int k / 10\<bar> \<le> 1 / 10 ^ 11"
    by (rule binary64_small_error)
  moreover have "round_py x 1 = binary64 (real_of_int k / 10)"
    by (simp add: round_py_def k_def)
  ultimately show ?thesis using k10 by linarith
qed

lemma fahrenheit_close:
  assumes "\<bar>c\<bar> \<le> 1000"
  shows "\<bar>round_py (binary64 (binary64 (binary64 (c * 9) / 5) + 32)) 1 - (c * 9 / 5 + 32)\<bar>
           \<le> 1 / 20 + 1 / 10 ^ 9"
proof -
  define x1 where "x1 = binary64 (c * 9)"
  define x2 where "x2 = binary64 (x1 / 5)"
  define x3 where "x3 = binary64 (x2 + 32)"
  have d: "(1::real) / 10 ^ 11 \<le> 1 / 1000" by simp
  have "\<bar>c * 9\<bar> \<le> 16384" using assms by linarith
  then have e1: "\<bar>x1 - c * 9\<bar> \<le> 1 / 10 ^ 11"
    unfolding x1_def by (rule binary64_small_error)
  with assms d have "\<bar>x1 / 5\<bar> \<le> 16384" by linarith
  then have e2: "\<bar>x2 - x1 / 5\<bar> \<le> 1 / 10 ^ 11"
    unfolding x2_def by (rule binary64_small_error)
  with e1 assms d have "\<bar>x2 + 32\<bar> \<le> 16384" by linarith
  then have e3: "\<bar>x3 - (x2 + 32)\<bar> \<le> 1 / 10 ^ 11"
    unfolding x3_def by (rule binary64_small_error)
  with e2 e1 assms d have "\<bar>x3\<bar> \<le> 16000" by linarith
  then have e4: "\<bar>round_py x3 1 - x3\<bar> \<le> 1 / 20 + 1 / 10 ^ 11"
    by (rule round_py_1_close)
  have "(4::real) / 10 ^ 11 \<le> 1 / 10 ^ 9" by simp
  with e1 e2 e3 e4 have "\<bar>round_py x3 1 - (c * 9 / 5 + 32)\<bar> \<le> 1 / 20 + 1 / 10 ^ 9"
    by linarith
  then show ?thesis by (simp only: x1_def x2_def x3_def)
qed

section \<open>Sensor reader\<close>

lemma read_sensors_once_ok:
  assumes "temperature sn = Inr c" and "relative_humidity sn = Inr h"
    and "pm25_read sn = Inr aqdata"
  shows "read_sensors_once sn now =
     Inr \<lparr>ts = now,
          temp_c = round_py c 1,
          temp_f = round_py (binary64 (binary64 (binary64 (c * 9.0) / 5.0) + 32.0)) 1,
          humidity = round_py h 1,
          pm1 = aqdata ''pm10 standard'',
          pm25 = aqdata ''pm25 standard'',
          pm10 = aqdata ''pm100 standard'',
          aqi_category = aqi_category_from_pm25 (aqdata ''pm25 standard'')\<rparr>"
  using assms by (simp add: read_sensors_once_def Let_def)

text \<open>
  The sample temperature step by step: \<open>22.0 * 9.0\<close> is exact, \<open>198.0 / 5.0\<close> and
  the sum with \<open>32.0\<close> are rounded, and \<^verbatim>\<open>round\<close> gives the float nearest to 71.6.
\<close>

lemma sample_fahrenheit:
  "round_py (binary64 (binary64 (binary64 (22.0 * 9.0) / 5.0) + 32.0)) 1 = binary64 71.6"
proof -
  have e1: "binary64 (22.0 * 9.0) = 198"
    by (subst binary64_eval [where e = 7]) (simp_all add: round_half_even_def Let_def)
  have e2: "binary64 (198 / 5.0) = 5573204538870989 / 2 ^ 47"
    by (subst binary64_eval [where e = 5]) (simp_all add: round_half_even_def Let_def)
  have e3: "binary64 (5573204538870989 / 2 ^ 47 + 32.0) = 2519201041560371 / 2 ^ 45"
    by (subst binary64_eval [where e = 6]) (simp_all add: round_half_even_def Let_def)
  have r: "real_of_int (round_half_even (2519201041560371 / 2 ^ 45 * 10 ^ 1)) / 10 ^ 1 = 71.6"
    by (simp add: round_half_even_def Let_def)
  show ?thesis
    by (simp only: round_py_def e1 e2 e3 r)
qed

lemma sample_round: "round_py 22.0 1 = 22.0" "round_py 45.0 1 = 45.0"
proof -
  have a: "binary64 22.0 = 22.0"
    by (subst binary64_eval [where e = 4]) (simp_all add: round_half_even_def Let_def)
  have b: "binary64 45.0 = 45.0"
    by (subst binary64_eval [where e = 5]) (simp_all add: round_half_even_def Let_def)
  have ra: "real_of_int (round_half_even (22.0 * 10 ^ 1)) / 10 ^ 1 = 22.0"
    by (simp add: round_half_even_def Let_def)
  have rb: "real_of_int (round_half_even (45.0 * 10 ^ 1)) / 10 ^ 1 = 45.0"
    by (simp add: round_half_even_def Let_def)
  show "round_py 22.0 1 = 22.0" by (simp only: round_py_def ra a)
  show "round_py 45.0 1 = 45.0" by (simp only: round_py_def rb b)
qed

lemma fahrenheit_quarter_degree:
  "round_py (binary64 (binary64 (binary64 (0.25 * 9.0) / 5.0) + 32.0)) 1 = 32.5"
proof -
  have e1: "binary64 (0.25 * 9.0) = 9 / 4"
    by (subst binary64_eval [where e = 1]) (simp_all add: round_half_even_def Let_def)
  have e2: "binary64 (9 / 4 / 5.0) = 8106479329266893 / 2 ^ 54"
    by (subst binary64_eval [where e = "- 2"]) (simp_all add: round_half_even_def Let_def powi_neg)
  have e3: "binary64 (8106479329266893 / 2 ^ 54 + 32.0) = 2283465748565197 / 2 ^ 46"
    by (subst binary64_eval [where e = 5]) (simp_all add: round_half_even_def Let_def)
  have r: "real_of_int (round_half_even (2283465748565197 / 2 ^ 46 * 10 ^ 1)) / 10 ^ 1 = 32.5"
    by (simp add: round_half_even_def Let_def)
  have e4: "binary64 32.5 = 32.5"
    by (subst binary64_eval [where e = 5]) (simp_all add: round_half_even_def Let_def)
  show ?thesis
    by (simp only: round_py_def e1 e2 e3 r e4)
qed

text \<open>
  Two temperatures where the rounding of the division decides the stored value: in exact
  arithmetic 0.25 degrees is 32.45 Fahrenheit, a tie that would go to 32.4, and -17.75
  degrees is 0.05, a tie that would go to 0.0. The quotient is rounded up in both cases
  and the stored values are 32.5 and the float nearest to 0.1.
\<close>

lemma fahrenheit_below_zero:
  "round_py (binary64 (binary64 (binary64 (- 17.75 * 9.0) / 5.0) + 32.0)) 1 = binary64 0.1"
proof -
  have e1: "binary64 (- 17.75 * 9.0) = - 639 / 4"
    by (subst binary64_eval [where e = 7]) (simp_all add: round_half_even_def Let_def)
  have e2: "binary64 (- 639 / 4 / 5.0) = - 8993125505905459 / 2 ^ 48"
    by (subst binary64_eval [where e = 4]) (simp_all add: round_half_even_def Let_def)
  have e3: "binary64 (- 8993125505905459 / 2 ^ 48 + 32.0) = 14073748835533 / 2 ^ 48"
    by (subst binary64_eval [where e = "- 5"]) (simp_all add: round_half_even_def Let_def powi_neg)
  have r: "real_of_int (round_half_even (14073748835533 / 2 ^ 48 * 10 ^ 1)) / 10 ^ 1 = 0.1"
    by (simp add: round_half_even_def Let_def)
  show ?thesis
    by (simp only: round_py_def e1 e2 e3 r)
qed

lemma read_sample_sensors: "read_sensors_once sample_sensors t = Inr (sample_reading t)"
proof -
  from read_sensors_once_ok [of sample_sensors "22.0" "45.0"
      "[''pm10 standard'' \<mapsto> 6, ''pm25 standard'' \<mapsto> 10, ''pm100 standard'' \<mapsto> 12]" t]
  have "read_sensors_once sample_sensors t =
     Inr \<lparr>ts = t,
          temp_c = round_py 22.0 1,
          temp_f = round_py (binary64 (binary64 (binary64 (22.0 * 9.0) / 5.0) + 32.0)) 1,
          humidity = round_py 45.0 1,
          pm1 = [''pm10 standard'' \<mapsto> 6, ''pm25 standard'' \<mapsto> 10, ''pm100 standard'' \<mapsto> 12]
                  ''pm10 standard'',
          pm25 = [''pm10 standard'' \<mapsto> 6, ''pm25 standard'' \<mapsto> 10, ''pm100 standard'' \<mapsto> 12]
                  ''pm25 standard'',
          pm10 = [''pm10 standard'' \<mapsto> 6, ''pm25 standard'' \<mapsto> 10, ''pm100 standard'' \<mapsto> 12]
                  ''pm100 standard'',
          aqi_category = aqi_category_from_pm25
            ([''pm10 standard'' \<mapsto> 6, ''pm25 standard'' \<mapsto> 10, ''pm100 standard'' \<mapsto> 12]
               ''pm25 standard'')\<rparr>"
    by (simp add: sample_sensors_def)
  then have "read_sensors_once sample_sensors t =
     Inr \<lparr>ts = t,
          temp_c = 22.0,
          temp_f = binary64 71.6,
          humidity = 45.0,
          pm1 = [''pm10 standard'' \<mapsto> 6, ''pm25 standard'' \<mapsto> 10, ''pm100 standard'' \<mapsto> 12]
                  ''pm10 standard'',
          pm25 = [''pm10 standard'' \<mapsto> 6, ''pm25 standard'' \<mapsto> 10, ''pm100 standard'' \<mapsto> 12]
                  ''pm25 standard'',
          pm10 = [''pm10 standard'' \<mapsto> 6, ''pm25 standard'' \<mapsto> 10, ''pm100 standard'' \<mapsto> 12]
                  ''pm100 standard'',
          aqi_category = aqi_category_from_pm25
            ([''pm10 standard'' \<mapsto> 6, ''pm25 standard'' \<mapsto> 10, ''pm100 standard'' \<mapsto> 12]
               ''pm25 standard'')\<rparr>"
    by (simp only: sample_fahrenheit sample_round)
  then show ?thesis
    by (simp add: sample_reading_def)
qed

lemma read_failing_sensors:
  "read_sensors_once failing_sensors t = Inl (Sensor_error ''Unable to read from PM2.5 sensor'')"
  by (simp add: read_sensors_once_def failing_sensors_def)

lemma read_ok_tick: "read_sensors_once (hw (ok_tick t io)) (clock (ok_tick t io)) = Inr (sample_reading t)"
  by (simp add: ok_tick_def read_sample_sensors)

lemma read_failed_tick:
  "read_sensors_once (hw (failed_tick t)) (clock (failed_tick t)) =
     Inl (Sensor_error ''Unable to read from PM2.5 sensor'')"
  by (simp add: failed_tick_def read_failing_sensors)

text \<open>
  C9. A reading takes its Fahrenheit value from the Celsius value the sensor returned, by
  \<open>F = C * 9 / 5 + 32\<close> computed in float arithmetic, and the stored Celsius, Fahrenheit
  and humidity values are each rounded to one decimal: each is the float nearest to a
  multiple of one tenth, and for raw values up to 1000 in magnitude it lies within half a
  tenth (and a float rounding error below \<open>10 ^ (- 9)\<close>) of the exact value. The derived
  fields are functions of the raw values: two reads that see the same temperature and the
  same particulate data store the same Fahrenheit value and the same category, whatever
  the clock says. Raw values 22.0, 45.0 and PM2.5 10.0 give 71.6, 45.0, 10.0 and Good.
\<close>

theorem reading_derived_fields:
  "(temperature sn = Inr c \<and> relative_humidity sn = Inr h \<and> pm25_read sn = Inr aqdata \<longrightarrow>
      (\<exists>r. read_sensors_once sn now = Inr r
         \<and> ts r = now
         \<and> temp_c r = round_py c 1
         \<and> temp_f r = round_py (binary64 (binary64 (binary64 (c * 9) / 5) + 32)) 1
         \<and> humidity r = round_py h 1
         \<and> pm25 r = aqdata ''pm25 standard''
         \<and> aqi_category r = aqi_category_from_pm25 (aqdata ''pm25 standard'')
         \<and> (\<bar>c\<bar> \<le> 1000 \<longrightarrow>
               \<bar>temp_f r - (c * 9 / 5 + 32)\<bar> \<le> 1 / 20 + 1 / 10 ^ 9
             \<and> \<bar>temp_c r - c\<bar> \<le> 1 / 20 + 1 / 10 ^ 9)
         \<and> (\<bar>h\<bar> \<le> 1000 \<longrightarrow> \<bar>humidity r - h\<bar> \<le> 1 / 20 + 1 / 10 ^ 9)))
   \<and> (read_sensors_once sn now = Inr r1 \<and> read_sensors_once sn' now' = Inr r2
        \<and> temperature sn' = temperature sn \<and> pm25_read sn' = pm25_read sn
      \<longrightarrow> temp_f r2 = temp_f r1 \<and> aqi_category r2 = aqi_category r1)
   \<and> (\<exists>k. round_py x 1 = binary64 (real_of_int k / 10))"
proof -
  have small: "\<bar>round_py y 1 - y\<bar> \<le> 1 / 20 + 1 / 10 ^ 9" if "\<bar>y\<bar> \<le> 1000" for y
  proof -
    from that have "\<bar>y\<bar> \<le> 16000" by simp
    then have "\<bar>round_py y 1 - y\<bar> \<le> 1 / 20 + 1 / 10 ^ 11" by (rule round_py_1_close)
    moreover have "(1::real) / 10 ^ 11 \<le> 1 / 10 ^ 9" by simp
    ultimately show ?thesis by linarith
  qed
  have a: "\<exists>r. read_sensors_once sn now = Inr r
         \<and> ts r = now
         \<and> temp_c r = round_py c 1
         \<and> temp_f r = round_py (binary64 (binary64 (binary64 (c * 9) / 5) + 32)) 1
         \<and> humidity r = round_py h 1
         \<and> pm25 r = aqdata ''pm25 standard''
         \<and> aqi_category r = aqi_category_from_pm25 (aqdata ''pm25 standard'')
         \<and> (\<bar>c\<bar> \<le> 1000 \<longrightarrow>
               \<bar>temp_f r - (c * 9 / 5 + 32)\<bar> \<le> 1 / 20 + 1 / 10 ^ 9
             \<and> \<bar>temp_c r - c\<bar> \<le> 1 / 20 + 1 / 10 ^ 9)
         \<and> (\<bar>h\<bar> \<le> 1000 \<longrightarrow> \<bar>humidity r - h\<bar> \<le> 1 / 20 + 1 / 10 ^ 9)"
    if "temperature sn = Inr c" "relative_humidity sn = Inr h" "pm25_read sn = Inr aqdata"
    using read_sensors_once_ok [OF that, of now] fahrenheit_close [of c] small [of c] small [of h]
    by simp
  have b: "temp_f r2 = temp_f r1 \<and> aqi_category r2 = aqi_category r1"
    if "read_sensors_once sn now = Inr r1" "read_sensors_once sn' now' = Inr r2"
       "temperature sn' = temperature sn" "pm25_read sn' = pm25_read sn"
    using that by (auto simp: read_sensors_once_def Let_def split: sum.splits)
  have c: "\<exists>k. round_py x 1 = binary64 (real_of_int k / 10)"
    by (rule exI [of _ "round_half_even (x * 10)"]) (simp add: round_py_def)
  from a b c show ?thesis by blast
qed

theorem reading_derived_fields_witness:
  "temperature sample_sensors = Inr 22.0 \<and> relative_humidity sample_sensors = Inr 45.0
   \<and> \<bar>22.0 :: real\<bar> \<le> 1000 \<and> \<bar>45.0 :: real\<bar> \<le> 1000
   \<and> (\<exists>r. read_sensors_once sample_sensors 1200 = Inr r
         \<and> temp_c r = 22.0 \<and> temp_f r = binary64 71.6 \<and> humidity r = 45.0
         \<and> pm25 r = Some 10.0 \<and> aqi_category r = ''Good''
         \<and> \<bar>temp_f r - 71.6\<bar> \<le> 1 / 20 + 1 / 10 ^ 9)"
proof -
  have h: "temperature sample_sensors = Inr 22.0 \<and> relative_humidity sample_sensors = Inr 45.0
      \<and> pm25_read sample_sensors =
          Inr [''pm10 standard'' \<mapsto> 6, ''pm25 standard'' \<mapsto> 10, ''pm100 standard'' \<mapsto> 12]"
    by (simp add: sample_sensors_def)
  have b: "\<bar>22.0 :: real\<bar> \<le> 1000" "\<bar>45.0 :: real\<bar> \<le> 1000" by simp_all
  from h b(1) reading_derived_fields [of sample_sensors "22.0" "45.0"
      "[''pm10 standard'' \<mapsto> 6, ''pm25 standard'' \<mapsto> 10, ''pm100 standard'' \<mapsto> 12]"
      1200 "sample_reading 1200" sample_sensors 1200 "sample_reading 1200" 0]
  obtain r where r: "read_sensors_once sample_sensors 1200 = Inr r"
    and f: "\<bar>temp_f r - (22.0 * 9 / 5 + 32)\<bar> \<le> 1 / 20 + 1 / 10 ^ 9"
    by blast
  from r have eq: "r = sample_reading 1200" by (simp add: read_sample_sensors)
  have "(22.0 * 9 / 5 + 32 :: real) = 71.6" by simp
  with f have "\<bar>temp_f r - 71.6\<bar> \<le> 1 / 20 + 1 / 10 ^ 9" by simp
  moreover have "temp_c r = 22.0" "temp_f r = binary64 71.6" "humidity r = 45.0"
    "pm25 r = Some 10.0" "aqi_category r = ''Good''"
    by (simp_all add: eq sample_reading_def)
  ultimately show ?thesis using h b r by blast
qed

section \<open>The poll loop and the latest reading\<close>

lemma history_print_line: "history (print_line l s) = history s"
  by (simp add: print_line_def)

lemma last_row_print_line: "last_row (print_line l s) = last_row s"
  by (simp add: print_line_def)

lemma history_append_to_csv: "history (append_to_csv io row s) = history s"
  by (cases io) (simp_all add: print_line_def)

lemma last_row_append_to_csv: "last_row (append_to_csv io row s) = last_row s"
  by (cases io) (simp_all add: print_line_def)

lemma iteration_read_ok:
  assumes "read_sensors_once (hw t) (clock t) = Inr row"
  shows "history (sensor_loop_iteration t s) = history (history_store_record row s)"
    and "last_row (sensor_loop_iteration t s) = Some row"
  using assms
  by (simp_all add: sensor_loop_iteration_def sensor_loop_try_def Let_def history_print_line
      last_row_print_line history_append_to_csv last_row_append_to_csv last_row_record)

lemma iteration_read_fails:
  assumes "read_sensors_once (hw t) (clock t) = Inl e"
  shows "history (sensor_loop_iteration t s) = history s"
    and "last_row (sensor_loop_iteration t s) = last_row s"
  using assms
  by (simp_all add: sensor_loop_iteration_def sensor_loop_try_def Let_def history_print_line
      last_row_print_line)

lemma sensor_loop_append:
  "sensor_loop (xs @ ys) s = sensor_loop ys (sensor_loop xs s)"
  by (induction xs arbitrary: s) simp_all

lemma sensor_loop_all_fail:
  "\<forall>t \<in> set ticks. isl (read_sensors_once (hw t) (clock t)) \<Longrightarrow>
   history (sensor_loop ticks s) = history s \<and> last_row (sensor_loop ticks s) = last_row s"
proof (induction ticks arbitrary: s)
  case Nil
  then show ?case by simp
next
  case (Cons t rest)
  then obtain e where "read_sensors_once (hw t) (clock t) = Inl e"
    by (cases "read_sensors_once (hw t) (clock t)") auto
  with Cons show ?case
    by (simp add: iteration_read_fails)
qed

lemma sensor_loop_last_row_None:
  "last_row (sensor_loop ticks s) = None \<longleftrightarrow>
     last_row s = None \<and> (\<forall>t \<in> set ticks. isl (read_sensors_once (hw t) (clock t)))"
proof (induction ticks arbitrary: s rule: rev_induct)
  case Nil
  then show ?case by simp
next
  case (snoc t rest)
  show ?case
  proof (cases "read_sensors_once (hw t) (clock t)")
    case (Inl e)
    then show ?thesis
      using snoc [of s] by (simp add: sensor_loop_append iteration_read_fails)
  next
    case (Inr row)
    then show ?thesis
      by (simp add: sensor_loop_append iteration_read_ok)
  qed
qed

lemma iteration_latest_is_last:
  assumes "case last_row s of None \<Rightarrow> history s = []
           | Some r \<Rightarrow> history s \<noteq> [] \<and> last (history s) = r"
  shows "case last_row (sensor_loop_iteration t s) of None \<Rightarrow> history (sensor_loop_iteration t s) = []
           | Some r \<Rightarrow> history (sensor_loop_iteration t s) \<noteq> [] \<and> last (history (sensor_loop_iteration t s)) = r"
proof (cases "read_sensors_once (hw t) (clock t)")
  case (Inl e)
  with assms show ?thesis by (simp add: iteration_read_fails split: option.splits)
next
  case (Inr row)
  then show ?thesis by (simp add: iteration_read_ok record_keeps_row)
qed

lemma sensor_loop_latest_is_last:
  "(case last_row s of None \<Rightarrow> history s = []
           | Some r \<Rightarrow> history s \<noteq> [] \<and> last (history s) = r) \<Longrightarrow>
   (case last_row (sensor_loop ticks s) of None \<Rightarrow> history (sensor_loop ticks s) = []
           | Some r \<Rightarrow> history (sensor_loop ticks s) \<noteq> [] \<and> last (history (sensor_loop ticks s)) = r)"
proof (induction ticks arbitrary: s)
  case Nil
  then show ?case by (simp split: option.splits)
next
  case (Cons t rest)
  show ?case
    unfolding sensor_loop.simps
    by (rule Cons.IH) (rule iteration_latest_is_last [OF Cons.prems])
qed

text \<open>
  C3. After every record call, for any reading and any prior state, the latest reading is
  the last element of the window and the window is not empty: the reading just inserted is
  never evicted. The latest snapshot after any non-empty sequence of record calls is the
  last reading recorded. In a run of the poll loop from the initial state the latest
  reading is empty exactly when no sensor read has succeeded, and otherwise it is the last
  element of the window.
\<close>

theorem latest_reading_is_last_of_window:
  "last_row (history_store_record row s) = Some (last (history (history_store_record row s)))
   \<and> history (history_store_record row s) \<noteq> []
   \<and> last (history (history_store_record row s)) = row
   \<and> snapshot_latest (fold history_store_record (rs @ [r]) s) = Some r
   \<and> (last_row (sensor_loop ticks initial_monitor) = None \<longleftrightarrow>
        (\<forall>t \<in> set ticks. isl (read_sensors_once (hw t) (clock t))))
   \<and> (case last_row (sensor_loop ticks initial_monitor) of
        None \<Rightarrow> history (sensor_loop ticks initial_monitor) = []
      | Some l \<Rightarrow> history (sensor_loop ticks initial_monitor) \<noteq> []
                 \<and> last (history (sensor_loop ticks initial_monitor)) = l)"
proof -
  have a: "last_row (history_store_record row s) = Some (last (history (history_store_record row s)))"
    by (simp add: last_row_record record_keeps_row)
  have b: "snapshot_latest (fold history_store_record (rs @ [r]) s) = Some r"
    by (simp add: snapshot_latest_def last_row_record)
  have c: "last_row (sensor_loop ticks initial_monitor) = None \<longleftrightarrow>
        (\<forall>t \<in> set ticks. isl (read_sensors_once (hw t) (clock t)))"
    by (simp add: sensor_loop_last_row_None) (simp add: initial_monitor_def)
  have d: "case last_row (sensor_loop ticks initial_monitor) of
        None \<Rightarrow> history (sensor_loop ticks initial_monitor) = []
      | Some l \<Rightarrow> history (sensor_loop ticks initial_monitor) \<noteq> []
                 \<and> last (history (sensor_loop ticks initial_monitor)) = l"
    by (rule sensor_loop_latest_is_last) (simp add: initial_monitor_def)
  from a b c d record_keeps_row [of row s] show ?thesis by blast
qed

theorem latest_reading_is_last_of_window_witness:
  "last_row (sensor_loop [failed_tick 0, ok_tick 5 Io_ok, failed_tick 10] initial_monitor) = Some (sample_reading 5)
   \<and> history (sensor_loop [failed_tick 0, ok_tick 5 Io_ok, failed_tick 10] initial_monitor) = [sample_reading 5]
   \<and> \<not> (\<forall>t \<in> set [failed_tick 0, ok_tick 5 Io_ok, failed_tick 10]. isl (read_sensors_once (hw t) (clock t)))
   \<and> last_row (sensor_loop [failed_tick 0] initial_monitor) = None
   \<and> isl (read_sensors_once (hw (failed_tick 0)) (clock (failed_tick 0)))"
  using latest_reading_is_last_of_window [of "sample_reading 5" initial_monitor "[]" "sample_reading 5"
      "[failed_tick 0, ok_tick 5 Io_ok, failed_tick 10]"]
    latest_reading_is_last_of_window [of "sample_reading 5" initial_monitor "[]" "sample_reading 5"
      "[failed_tick 0]"]
  by (simp add: read_ok_tick read_failed_tick iteration_read_ok iteration_read_fails history_record)
     (simp add: initial_monitor_def)

section \<open>Eviction\<close>

lemma filter_cutoff_sorted:
  fixes c :: real
  shows "sorted (map ts xs) \<Longrightarrow> filter (\<lambda>r. ts r \<ge> c) xs = dropWhile (\<lambda>r. ts r < c) xs"
proof (induction xs)
  case Nil
  then show ?case by simp
next
  case (Cons x xs)
  show ?case
  proof (cases "ts x < c")
    case True
    with Cons show ?thesis by simp
  next
    case False
    with Cons.prems have "\<forall>r \<in> set xs. ts r \<ge> c" by auto
    then have "filter (\<lambda>r. ts r \<ge> c) xs = xs" by simp
    with False show ?thesis by simp
  qed
qed

text \<open>
  C5, as the spec states it: the window after a record call is a suffix of the prior
  window with the new reading appended, also when timestamps do not increase. It fails
  when the clock has stepped back: with readings at 1000 and 500 in the window, recording
  one at 1450 evicts the reading at 500 from the middle and keeps the older one at 1000.
\<close>

theorem record_prefix_trim_counterexample:
  "\<not> suffix
       (history (history_store_record (sample_reading 1450)
          (fold history_store_record [sample_reading 1000, sample_reading 500] initial_monitor)))
       (history (fold history_store_record [sample_reading 1000, sample_reading 500] initial_monitor)
          @ [sample_reading 1450])"
  by (simp add: history_record initial_monitor_def sample_reading_def HISTORY_SECONDS_def
      suffix_to_prefix)

text \<open>
  C5, amended. A record call keeps the entries at or after the cutoff in their order and
  puts the new reading last: the window after the call is a subsequence of the prior
  window with the new reading appended, and it is a suffix of it (only a prefix is
  evicted) when the timestamps of the prior window do not decrease. Nothing but record
  changes the window: writing the CSV row and an iteration whose sensor read fails leave
  it as it was.
\<close>

theorem record_trims_in_order:
  "subseq (history (history_store_record row s)) (history s @ [row])
   \<and> history (history_store_record row s) =
       filter (\<lambda>r. ts r \<ge> ts row - HISTORY_SECONDS) (history s) @ [row]
   \<and> (sorted (map ts (history s)) \<longrightarrow>
        suffix (history (history_store_record row s)) (history s @ [row]))
   \<and> history (append_to_csv io row s) = history s
   \<and> (isl (read_sensors_once (hw t) (clock t)) \<longrightarrow> history (sensor_loop_iteration t s) = history s)"
proof -
  have sub: "subseq (history (history_store_record row s)) (history s @ [row])"
    by (simp add: history_record)
  have suf: "suffix (history (history_store_record row s)) (history s @ [row])"
    if "sorted (map ts (history s))"
    using that by (simp add: history_record filter_cutoff_sorted suffix_dropWhile)
  have fail: "history (sensor_loop_iteration t s) = history s"
    if "isl (read_sensors_once (hw t) (clock t))"
    using that by (cases "read_sensors_once (hw t) (clock t)") (simp_all add: iteration_read_fails)
  from sub suf fail show ?thesis
    by (simp add: history_record history_append_to_csv)
qed

theorem record_trims_in_order_witness:
  "sorted (map ts [sample_reading 0, sample_reading 300])
   \<and> suffix [sample_reading 300, sample_reading 1200] ([sample_reading 0, sample_reading 300] @ [sample_reading 1200])
   \<and> isl (read_sensors_once (hw (failed_tick 1205)) (clock (failed_tick 1205)))
   \<and> history (sensor_loop_iteration (failed_tick 1205)
        (fold history_store_record [sample_reading 0, sample_reading 300] initial_monitor)) =
      [sample_reading 0, sample_reading 300]"
  using record_trims_in_order [of "sample_reading 1200"
      "fold history_store_record [sample_reading 0, sample_reading 300] initial_monitor"
      Io_ok "failed_tick 1205"]
  by (simp add: history_record read_failed_tick)
     (simp add: initial_monitor_def sample_reading_def HISTORY_SECONDS_def)

section \<open>HTTP handlers\<close>

lemma api_data_cases:
  "api_data sysinfo s =
     (case last_row s of None \<Rightarrow> (Error_body False ''No data yet'', 503)
      | Some r \<Rightarrow> (Data_body True r sysinfo, 200))"
  by (simp add: api_data_def snapshot_latest_def Let_def split: option.splits)

lemma sensor_loop_last_success:
  assumes "read_sensors_once (hw t) (clock t) = Inr row"
    and "\<forall>u \<in> set post. isl (read_sensors_once (hw u) (clock u))"
  shows "last_row (sensor_loop (pre @ t # post) s) = Some row"
proof -
  have "sensor_loop (pre @ t # post) s = sensor_loop post (sensor_loop_iteration t (sensor_loop pre s))"
    by (simp add: sensor_loop_append)
  then show ?thesis
    using sensor_loop_all_fail [OF assms(2)] iteration_read_ok(2) [OF assms(1)] by simp
qed

text \<open>
  C7. In a run of the poll loop from the initial state, \<^verbatim>\<open>/api/data\<close> answers 503
  with \<^verbatim>\<open>ok: false\<close> and the error "No data yet" exactly when no sensor read has
  succeeded; once one has, it answers 200 with \<^verbatim>\<open>ok: true\<close>, the reading of the
  last successful read and the system info.
\<close>

theorem api_data_no_data_until_first_success:
  "(api_data sysinfo (sensor_loop ticks initial_monitor) = (Error_body False ''No data yet'', 503)
      \<longleftrightarrow> (\<forall>u \<in> set ticks. isl (read_sensors_once (hw u) (clock u))))
   \<and> (read_sensors_once (hw t) (clock t) = Inr row
        \<and> (\<forall>u \<in> set post. isl (read_sensors_once (hw u) (clock u)))
      \<longrightarrow> api_data sysinfo (sensor_loop (pre @ t # post) initial_monitor) =
            (Data_body True row sysinfo, 200))"
proof -
  have none: "last_row (sensor_loop ticks initial_monitor) = None \<longleftrightarrow>
      (\<forall>u \<in> set ticks. isl (read_sensors_once (hw u) (clock u)))"
    by (simp add: sensor_loop_last_row_None) (simp add: initial_monitor_def)
  have "api_data sysinfo (sensor_loop ticks initial_monitor) = (Error_body False ''No data yet'', 503)
      \<longleftrightarrow> last_row (sensor_loop ticks initial_monitor) = None"
    by (simp add: api_data_cases split: option.splits)
  with none show ?thesis
    by (simp add: api_data_cases sensor_loop_last_success)
qed

theorem api_data_no_data_until_first_success_witness:
  "api_data sample_system_info (sensor_loop [failed_tick 0, failed_tick 5] initial_monitor) =
     (Error_body False ''No data yet'', 503)
   \<and> isl (read_sensors_once (hw (failed_tick 0)) (clock (failed_tick 0)))
   \<and> isl (read_sensors_once (hw (failed_tick 5)) (clock (failed_tick 5)))
   \<and> read_sensors_once (hw (ok_tick 15 Io_ok)) (clock (ok_tick 15 Io_ok)) = Inr (sample_reading 15)
   \<and> isl (read_sensors_once (hw (failed_tick 20)) (clock (failed_tick 20)))
   \<and> api_data sample_system_info
       (sensor_loop ([failed_tick 0, ok_tick 10 Io_ok] @ ok_tick 15 Io_ok # [failed_tick 20]) initial_monitor) =
     (Data_body True (sample_reading 15) sample_system_info, 200)"
  using api_data_no_data_until_first_success [of sample_system_info "[failed_tick 0, failed_tick 5]"
      "ok_tick 15 Io_ok" "sample_reading 15" "[failed_tick 20]" "[failed_tick 0, ok_tick 10 Io_ok]"]
  by (simp add: read_ok_tick read_failed_tick)

text \<open>
  C10. \<^verbatim>\<open>/api/history\<close> has no failure answer: in every state, the initial one
  included, it answers 200 with \<^verbatim>\<open>ok: true\<close> and the whole window in insertion
  order, the empty list when nothing has been recorded.
\<close>

theorem api_history_always_ok:
  "api_history s = (Points_body True (history s), 200)
   \<and> snapshot_history s = history s
   \<and> api_history initial_monitor = (Points_body True [], 200)
   \<and> api_history (sensor_loop ticks initial_monitor) =
       (Points_body True (history (sensor_loop ticks initial_monitor)), 200)"
  by (simp add: api_history_def snapshot_history_def initial_monitor_def)



section \<open>Failures in the poll loop\<close>

lemma record_leaves_log:
  "csv_file (history_store_record row s) = csv_file s"
  "printed_lines (history_store_record row s) = printed_lines s"
  "slept (history_store_record row s) = slept s"
  by (simp_all add: history_store_record_def)

lemma record_has_row: "row \<in> set (history (history_store_record row s))"
  by (simp add: history_record)

lemma append_to_csv_ok:
  "csv_file (append_to_csv Io_ok row s) =
     Some ((case csv_file s of None \<Rightarrow> [Header] | Some ls \<Rightarrow> ls) @ [Row row])"
  "printed_lines (append_to_csv Io_ok row s) = printed_lines s"
  by simp_all

lemma append_to_csv_fails:
  assumes "io \<noteq> Io_ok"
  shows "\<exists>e. printed_lines (append_to_csv io row s) = printed_lines s @ [Csv_write_error e]"
    and "csv_file (append_to_csv io row s) \<in> {csv_file s, Some [], Some [Header]}"
  using assms by (cases io; cases "csv_file s"; simp add: print_line_def)+

lemma printed_append_to_csv:
  "printed_lines (append_to_csv io row s) =
     printed_lines s @ (case io of Io_ok \<Rightarrow> [] | Open_raises e \<Rightarrow> [Csv_write_error e]
                        | Row_raises e \<Rightarrow> [Csv_write_error e]
                        | Write_raises e \<Rightarrow> [Csv_write_error e])"
  by (cases io) (simp_all add: print_line_def)

lemma slept_append_to_csv: "slept (append_to_csv io row s) = slept s"
  by (cases io) (simp_all add: print_line_def)

lemma try_read_ok:
  assumes "read_sensors_once (hw t) (clock t) = Inr row"
  shows "sensor_loop_try t s =
     Inr [history_store_record row s,
          append_to_csv (csv_io t) row (history_store_record row s),
          print_line (Logged row) (append_to_csv (csv_io t) row (history_store_record row s))]"
  using assms by (simp add: sensor_loop_try_def Let_def)

lemma iteration_after_try:
  assumes "read_sensors_once (hw t) (clock t) = Inr row"
  shows "sensor_loop_iteration t s =
     (print_line (Logged row) (append_to_csv (csv_io t) row (history_store_record row s)))
       \<lparr>slept := slept s + READ_INTERVAL_SEC\<rparr>"
  by (simp add: sensor_loop_iteration_def try_read_ok [OF assms] Let_def print_line_def
      slept_append_to_csv record_leaves_log)

lemma iteration_after_failed_read:
  assumes "read_sensors_once (hw t) (clock t) = Inl e"
  shows "sensor_loop_try t s = Inl e"
    and "sensor_loop_iteration t s =
       s\<lparr>printed_lines := printed_lines s @ [Sensor_read_error e],
         slept := slept s + READ_INTERVAL_SEC\<rparr>"
  using assms by (simp_all add: sensor_loop_iteration_def sensor_loop_try_def Let_def print_line_def)

lemma slept_iteration: "slept (sensor_loop_iteration t s) = slept s + READ_INTERVAL_SEC"
proof (cases "read_sensors_once (hw t) (clock t)")
  case (Inl e)
  then show ?thesis by (simp add: iteration_after_failed_read)
next
  case (Inr row)
  then show ?thesis by (simp add: iteration_after_try)
qed

lemma slept_sensor_loop:
  "slept (sensor_loop ticks s) = slept s + real (length ticks) * READ_INTERVAL_SEC"
  by (induction ticks arbitrary: s) (simp_all add: slept_iteration algebra_simps)

lemma printed_iteration_read_ok:
  assumes "read_sensors_once (hw t) (clock t) = Inr row"
  shows "\<exists>before. printed_lines (sensor_loop_iteration t s) = before @ [Logged row]"
  by (simp add: iteration_after_try [OF assms] print_line_def)

text \<open>
  C8. In an iteration whose sensor read succeeds, the History Store record comes before
  the Session Log append: in the state after the locked block the reading is the latest
  one and is in the window while the CSV file and the printed lines are still untouched,
  and only the next state has the CSV row. The append leaves the window and the latest
  reading as record left them, whatever the file system does: when it succeeds the row is
  the last line of the file (after the header, if the file is new); when \<^verbatim>\<open>open\<close>, the
  row or the write raises, the exception is caught and printed, no row is added, and the
  \<^verbatim>\<open>try\<close> block of the loop still completes. In an iteration whose sensor read fails
  the \<^verbatim>\<open>try\<close> block raises, the error is printed and nothing else changes. Either way
  the iteration ends with its sleep and the loop goes on: whatever happened in earlier
  iterations, a later iteration whose read succeeds records and logs its reading, and a
  run has slept once for each of its iterations.
\<close>

theorem poll_iteration_survives_failures:
  "(read_sensors_once (hw t) (clock t) = Inr row \<longrightarrow>
      (\<exists>s1 s2 s3. sensor_loop_try t s = Inr [s1, s2, s3]
         \<and> s1 = history_store_record row s
         \<and> last_row s1 = Some row \<and> row \<in> set (history s1)
         \<and> csv_file s1 = csv_file s \<and> printed_lines s1 = printed_lines s
         \<and> s2 = append_to_csv (csv_io t) row s1
         \<and> history s2 = history s1 \<and> last_row s2 = last_row s1
         \<and> (csv_io t = Io_ok \<longrightarrow>
               csv_file s2 =
                 Some ((case csv_file s of None \<Rightarrow> [Header] | Some ls \<Rightarrow> ls) @ [Row row])
             \<and> printed_lines s2 = printed_lines s)
         \<and> (csv_io t \<noteq> Io_ok \<longrightarrow>
               (\<exists>e. printed_lines s2 = printed_lines s @ [Csv_write_error e])
             \<and> csv_file s2 \<in> {csv_file s, Some [], Some [Header]})
         \<and> s3 = print_line (Logged row) s2
         \<and> sensor_loop_iteration t s = s3\<lparr>slept := slept s + READ_INTERVAL_SEC\<rparr>
         \<and> history (sensor_loop_iteration t s) = history s1
         \<and> last_row (sensor_loop_iteration t s) = Some row))
   \<and> (read_sensors_once (hw t) (clock t) = Inl e \<longrightarrow>
        sensor_loop_try t s = Inl e
      \<and> sensor_loop_iteration t s =
          s\<lparr>printed_lines := printed_lines s @ [Sensor_read_error e],
            slept := slept s + READ_INTERVAL_SEC\<rparr>)
   \<and> (read_sensors_once (hw u) (clock u) = Inr row' \<longrightarrow>
        last_row (sensor_loop (ticks @ [u]) s) = Some row'
      \<and> row' \<in> set (history (sensor_loop (ticks @ [u]) s))
      \<and> (\<exists>before. printed_lines (sensor_loop (ticks @ [u]) s) = before @ [Logged row']))
   \<and> slept (sensor_loop ticks s) = slept s + real (length ticks) * READ_INTERVAL_SEC"
proof -
  define s1 where "s1 = history_store_record row s"
  define s2 where "s2 = append_to_csv (csv_io t) row s1"
  define s3 where "s3 = print_line (Logged row) s2"
  have mem: "last_row s1 = Some row" "row \<in> set (history s1)"
    "csv_file s1 = csv_file s" "printed_lines s1 = printed_lines s"
    by (simp_all add: s1_def last_row_record record_has_row record_leaves_log)
  have app: "history s2 = history s1" "last_row s2 = last_row s1"
    by (simp_all add: s2_def history_append_to_csv last_row_append_to_csv)
  have good: "csv_file s2 =
        Some ((case csv_file s of None \<Rightarrow> [Header] | Some ls \<Rightarrow> ls) @ [Row row])
      \<and> printed_lines s2 = printed_lines s" if "csv_io t = Io_ok"
    using that mem(3,4) by (simp add: s2_def)
  have bad: "(\<exists>e. printed_lines s2 = printed_lines s @ [Csv_write_error e])
      \<and> csv_file s2 \<in> {csv_file s, Some [], Some [Header]}" if "csv_io t \<noteq> Io_ok"
    using append_to_csv_fails [OF that, of row s1] mem(3,4) by (simp add: s2_def)
  have ok: "sensor_loop_try t s = Inr [s1, s2, s3]
      \<and> sensor_loop_iteration t s = s3\<lparr>slept := slept s + READ_INTERVAL_SEC\<rparr>
      \<and> history (sensor_loop_iteration t s) = history s1
      \<and> last_row (sensor_loop_iteration t s) = Some row"
    if "read_sensors_once (hw t) (clock t) = Inr row"
    using try_read_ok [OF that, of s] iteration_after_try [OF that, of s]
      iteration_read_ok [OF that, of s]
    by (simp add: s1_def s2_def s3_def)
  let ?P = "\<lambda>a b c. sensor_loop_try t s = Inr [a, b, c]
         \<and> a = history_store_record row s
         \<and> last_row a = Some row \<and> row \<in> set (history a)
         \<and> csv_file a = csv_file s \<and> printed_lines a = printed_lines s
         \<and> b = append_to_csv (csv_io t) row a
         \<and> history b = history a \<and> last_row b = last_row a
         \<and> (csv_io t = Io_ok \<longrightarrow>
               csv_file b =
                 Some ((case csv_file s of None \<Rightarrow> [Header] | Some ls \<Rightarrow> ls) @ [Row row])
             \<and> printed_lines b = printed_lines s)
         \<and> (csv_io t \<noteq> Io_ok \<longrightarrow>
               (\<exists>e. printed_lines b = printed_lines s @ [Csv_write_error e])
             \<and> csv_file b \<in> {csv_file s, Some [], Some [Header]})
         \<and> c = print_line (Logged row) b
         \<and> sensor_loop_iteration t s = c\<lparr>slept := slept s + READ_INTERVAL_SEC\<rparr>
         \<and> history (sensor_loop_iteration t s) = history a
         \<and> last_row (sensor_loop_iteration t s) = Some row"
  have first: "\<exists>a b c. ?P a b c" if r: "read_sensors_once (hw t) (clock t) = Inr row"
  proof -
    from ok [OF r] mem app good bad s1_def s2_def s3_def have "?P s1 s2 s3"
      by blast
    then show ?thesis by blast
  qed
  have second: "sensor_loop_try t s = Inl e
      \<and> sensor_loop_iteration t s =
          s\<lparr>printed_lines := printed_lines s @ [Sensor_read_error e],
            slept := slept s + READ_INTERVAL_SEC\<rparr>"
    if "read_sensors_once (hw t) (clock t) = Inl e"
    using iteration_after_failed_read [OF that, of s] by simp
  have later: "last_row (sensor_loop (ticks @ [u]) s) = Some row'
      \<and> row' \<in> set (history (sensor_loop (ticks @ [u]) s))
      \<and> (\<exists>before. printed_lines (sensor_loop (ticks @ [u]) s) = before @ [Logged row'])"
    if r: "read_sensors_once (hw u) (clock u) = Inr row'"
    using iteration_read_ok [OF r, of "sensor_loop ticks s"]
      printed_iteration_read_ok [OF r, of "sensor_loop ticks s"]
      record_has_row [of row' "sensor_loop ticks s"]
    by (simp add: sensor_loop_append)
  from first second later slept_sensor_loop [of ticks s] show ?thesis
    by blast
qed

theorem poll_iteration_survives_failures_witness:
  "read_sensors_once (hw (ok_tick 0 (Open_raises ''disk full''))) (clock (ok_tick 0 (Open_raises ''disk full'')))
     = Inr (sample_reading 0)
   \<and> csv_io (ok_tick 0 (Open_raises ''disk full'')) \<noteq> Io_ok
   \<and> history (sensor_loop_iteration (ok_tick 0 (Open_raises ''disk full'')) initial_monitor) = [sample_reading 0]
   \<and> last_row (sensor_loop_iteration (ok_tick 0 (Open_raises ''disk full'')) initial_monitor) = Some (sample_reading 0)
   \<and> csv_file (sensor_loop_iteration (ok_tick 0 (Open_raises ''disk full'')) initial_monitor) = None
   \<and> printed_lines (sensor_loop_iteration (ok_tick 0 (Open_raises ''disk full'')) initial_monitor) =
       [Csv_write_error ''disk full'', Logged (sample_reading 0)]
   \<and> read_sensors_once (hw (ok_tick 10 Io_ok)) (clock (ok_tick 10 Io_ok)) = Inr (sample_reading 10)
   \<and> csv_io (ok_tick 10 Io_ok) = Io_ok
   \<and> csv_file (sensor_loop_iteration (ok_tick 10 Io_ok) initial_monitor) =
       Some [Header, Row (sample_reading 10)]
   \<and> read_sensors_once (hw (failed_tick 5)) (clock (failed_tick 5)) =
       Inl (Sensor_error ''Unable to read from PM2.5 sensor'')
   \<and> sensor_loop_iteration (failed_tick 5) initial_monitor =
       initial_monitor\<lparr>printed_lines := [Sensor_read_error (Sensor_error ''Unable to read from PM2.5 sensor'')],
         slept := 5\<rparr>
   \<and> last_row (sensor_loop ([ok_tick 0 (Open_raises ''disk full''), failed_tick 5] @ [ok_tick 10 Io_ok])
        initial_monitor) = Some (sample_reading 10)
   \<and> slept (sensor_loop [ok_tick 0 (Open_raises ''disk full''), failed_tick 5, ok_tick 10 Io_ok] initial_monitor) = 15"
  using poll_iteration_survives_failures [of "ok_tick 0 (Open_raises ''disk full'')" "sample_reading 0"
      initial_monitor "Sensor_error ''Unable to read from PM2.5 sensor''"
      "ok_tick 10 Io_ok" "sample_reading 10" "[ok_tick 0 (Open_raises ''disk full''), failed_tick 5]"]
    poll_iteration_survives_failures [of "failed_tick 5" "sample_reading 0"
      initial_monitor "Sensor_error ''Unable to read from PM2.5 sensor''"
      "ok_tick 10 Io_ok" "sample_reading 10"
      "[ok_tick 0 (Open_raises ''disk full''), failed_tick 5, ok_tick 10 Io_ok]"]
    poll_iteration_survives_failures [of "ok_tick 10 Io_ok" "sample_reading 10"
      initial_monitor "Sensor_error ''Unable to read from PM2.5 sensor''"
      "ok_tick 10 Io_ok" "sample_reading 10" "[]"]
  by (simp add: read_ok_tick read_failed_tick iteration_after_try iteration_after_failed_read
        sensor_loop_append)
     (simp add: initial_monitor_def ok_tick_def READ_INTERVAL_SEC_def print_line_def
        history_store_record_def HISTORY_SECONDS_def)

end
